theory Spec2Isabelle
  imports Complex_Main "HOL-Library.Word" "HOL-Library.Multiset"
begin

section \<open>Conventions of the embedding\<close>

text \<open>
  The C++/CUDA sources are embedded as follows.
  \<^item> \<^verbatim>\<open>unsigned long long\<close> is \<open>64 word\<close>, \<^verbatim>\<open>__int128\<close> is \<open>128 word\<close>,
    \<^verbatim>\<open>int\<close> and \<^verbatim>\<open>unsigned int\<close> are \<open>32 word\<close>, \<^verbatim>\<open>std::size_t\<close> is \<open>64 word\<close>.
    Arithmetic on words wraps; \<open>sint\<close> reads a word as a signed and \<open>uint\<close> as an
    unsigned value.
  \<^item> \<^verbatim>\<open>RealType\<close>, \<^verbatim>\<open>float\<close> and \<^verbatim>\<open>double\<close> are the type \<open>real\<close>: the arithmetic is
    idealised, rounding, infinities and NaN are not represented. A division by zero and
    the logarithm of a number that is not positive have the values HOL gives them; no
    property below depends on these values.
  \<^item> A device array reached through a raw pointer is a function from the element offset
    (an \<open>int\<close>) to the element, since the kernels receive no length. A pointer that
    may be null is an \<open>option\<close>.
\<close>

type_synonym u64 = "64 word"
type_synonym i128 = "128 word"
type_synonym i32 = "32 word"
type_synonym size_t = "64 word"

section \<open>fixed\_point.hpp\<close>

definition FIXED_EXPONENT :: int where
  "FIXED_EXPONENT = 0x1000000000"

definition LLONG_MAX :: "64 word" where
  "LLONG_MAX = 0x7FFFFFFFFFFFFFFF"

definition LLONG_MIN :: "64 word" where
  "LLONG_MIN = 0x8000000000000000"

text \<open>\<^verbatim>\<open>static_cast<RealType>(static_cast<long long>(v)) / FIXED_EXPONENT\<close>\<close>

definition FIXED_TO_FLOAT :: "u64 \<Rightarrow> real" where
  "FIXED_TO_FLOAT v = real_of_int (sint v) / real_of_int FIXED_EXPONENT"

text \<open>The cast of an \<^verbatim>\<open>__int128\<close> to \<^verbatim>\<open>long long\<close> keeps the low 64 bits.\<close>

definition FIXED_ENERGY_TO_FLOAT :: "i128 \<Rightarrow> real" where
  "FIXED_ENERGY_TO_FLOAT v =
     real_of_int (sint (ucast v :: 64 word)) / real_of_int FIXED_EXPONENT"

definition fixed_point_overflow :: "i128 \<Rightarrow> bool" where
  "fixed_point_overflow val =
     (let max = (scast LLONG_MAX :: i128);
          min = (scast LLONG_MIN :: i128)
      in word_sle max val \<or> word_sle val min)"

text \<open>
  The specification's reading of overflow: the wide value has left the range of values
  that \<^verbatim>\<open>long long\<close> represents, which is the closed interval from \<open>LLONG_MIN\<close>
  to \<open>LLONG_MAX\<close>.
\<close>

definition left_long_long_range :: "i128 \<Rightarrow> bool" where
  "left_long_long_range v = (sint v < sint LLONG_MIN \<or> sint LLONG_MAX < sint v)"

section \<open>device\_buffer.cu\<close>

datatype error = Runtime_error string | Length_error

text \<open>The element types the file instantiates \<^verbatim>\<open>DeviceBuffer<T>\<close> with, and their sizes.\<close>

datatype elem_type =
  T_double | T_float | T_int | T_char | T_unsigned_int | T_unsigned_long_long | T_int128

fun sizeof :: "elem_type \<Rightarrow> size_t" where
  "sizeof T_double = 8"
| "sizeof T_float = 4"
| "sizeof T_int = 4"
| "sizeof T_char = 1"
| "sizeof T_unsigned_int = 4"
| "sizeof T_unsigned_long_long = 8"
| "sizeof T_int128 = 16"

text \<open>
  \<^verbatim>\<open>cudaSafeMalloc\<close> (gpu\_utils.cuh) is not among the sources: \<open>allocate\<close> takes it as the
  parameter \<open>malloc\<close>, a function from the device state and the requested number of bytes
  to an error or a pointer and the new device state.
\<close>

definition allocate ::
  "elem_type \<Rightarrow> ('dev \<Rightarrow> size_t \<Rightarrow> error + ('ptr \<times> 'dev)) \<Rightarrow> size_t \<Rightarrow> 'dev \<Rightarrow> error + ('ptr \<times> 'dev)"
where
  "allocate T malloc len dev =
     (if len < 1 then Inl (Runtime_error ''device buffer length must at least be 1'')
      else malloc dev (len * sizeof T))"

record 'ptr DeviceBuffer =
  size_m :: size_t
  data_m :: 'ptr

text \<open>The constructor: \<^verbatim>\<open>size(length * sizeof(T)), data(allocate<T>(length))\<close>.\<close>

definition DeviceBuffer_ctor ::
  "elem_type \<Rightarrow> ('dev \<Rightarrow> size_t \<Rightarrow> error + ('ptr \<times> 'dev)) \<Rightarrow> size_t \<Rightarrow> 'dev
     \<Rightarrow> error + ('ptr DeviceBuffer \<times> 'dev)"
where
  "DeviceBuffer_ctor T malloc len dev =
     (case allocate T malloc len dev of
        Inl e \<Rightarrow> Inl e
      | Inr (p, dev') \<Rightarrow> Inr (\<lparr>size_m = len * sizeof T, data_m = p\<rparr>, dev'))"

text \<open>
  An allocator to run the constructor on: the device state is the list of the byte
  counts requested so far, a pointer is the position of its request in that list, and
  every request succeeds.
\<close>

definition recording_malloc :: "size_t list \<Rightarrow> size_t \<Rightarrow> error + (nat \<times> size_t list)" where
  "recording_malloc dev n = Inr (length dev, dev @ [n])"

section \<open>Device memory and atomic addition\<close>

type_synonym 'a mem = "int \<Rightarrow> 'a"

text \<open>\<^verbatim>\<open>atomicAdd(address + offset, val)\<close>: the addition wraps at the width of the element.\<close>

definition atomicAdd :: "('a::plus) mem \<Rightarrow> int \<Rightarrow> 'a \<Rightarrow> 'a mem" where
  "atomicAdd address offset val = address(offset := address offset + val)"

text \<open>
  The three output pointers of a kernel. The energy buffer's element type is
  \<^verbatim>\<open>unsigned long long\<close> in the periodic torsion kernel and \<^verbatim>\<open>__int128\<close> in the log
  flat bottom bond kernel, so it is a type parameter.
\<close>

record 'e outputs =
  du_dx_buf :: "u64 mem option"
  du_dp_buf :: "u64 mem option"
  u_buf :: "'e mem option"

section \<open>Mathematical library functions\<close>

text \<open>
  The C library and CUDA functions \<^verbatim>\<open>nearbyint\<close>, \<^verbatim>\<open>atan2\<close>, \<^verbatim>\<open>expm1\<close> and \<^verbatim>\<open>log1p\<close> on
  the reals. \<open>nearbyint\<close> rounds to the nearest integer, a tie to the even one (the default
  rounding mode).
\<close>

definition nearbyint :: "real \<Rightarrow> real" where
  "nearbyint x =
     (let f = \<lfloor>x\<rfloor>; d = x - of_int f
      in of_int (if d < 1 / 2 then f else if 1 / 2 < d then f + 1
                 else if even f then f else f + 1))"

definition atan2 :: "real \<Rightarrow> real \<Rightarrow> real" where
  "atan2 y x =
     (if 0 < x then arctan (y / x)
      else if x < 0 \<and> 0 \<le> y then arctan (y / x) + pi
      else if x < 0 \<and> y < 0 then arctan (y / x) - pi
      else if 0 < y then pi / 2
      else if y < 0 then - pi / 2
      else 0)"

definition expm1 :: "real \<Rightarrow> real" where
  "expm1 x = exp x - 1"

definition log1p :: "real \<Rightarrow> real" where
  "log1p x = ln (1 + x)"

section \<open>kernels/k\_periodic\_torsion.cuh\<close>

definition dot_product :: "real list \<Rightarrow> real list \<Rightarrow> real" where
  "dot_product a b = a ! 0 * b ! 0 + a ! 1 * b ! 1 + a ! 2 * b ! 2"

definition rmul_rn :: "real \<Rightarrow> real \<Rightarrow> real" where
  "rmul_rn a b = a * b"

definition cross_product :: "real list \<Rightarrow> real list \<Rightarrow> real list" where
  "cross_product a b =
     [rmul_rn (a ! 1) (b ! 2) - rmul_rn (a ! 2) (b ! 1),
      rmul_rn (a ! 2) (b ! 0) - rmul_rn (a ! 0) (b ! 2),
      rmul_rn (a ! 0) (b ! 1) - rmul_rn (a ! 1) (b ! 0)]"

text \<open>
  The first loop of the kernel: the three displacements \<open>rij\<close>, \<open>rkj\<close> and \<open>rkl\<close> of a
  torsion, each a difference of two rows of \<open>coords\<close>. The index arithmetic is that of
  \<^verbatim>\<open>int\<close>; \<open>D\<close> is the kernel's template parameter.
\<close>

definition torsion_displacements ::
  "i32 \<Rightarrow> real mem \<Rightarrow> i32 \<Rightarrow> i32 \<Rightarrow> i32 \<Rightarrow> i32 \<Rightarrow> real list \<times> real list \<times> real list"
where
  "torsion_displacements D coords i_idx j_idx k_idx l_idx =
     (map (\<lambda>d. coords (sint (j_idx * D + d)) - coords (sint (i_idx * D + d))) [0, 1, 2],
      map (\<lambda>d. coords (sint (j_idx * D + d)) - coords (sint (k_idx * D + d))) [0, 1, 2],
      map (\<lambda>d. coords (sint (l_idx * D + d)) - coords (sint (k_idx * D + d))) [0, 1, 2])"

text \<open>
  Lines 46 to 98 of the kernel: from the displacements to the torsion angle and its
  derivatives with respect to the four atoms.
\<close>

definition torsion_angle_terms ::
  "real list \<Rightarrow> real list \<Rightarrow> real list
     \<Rightarrow> real \<times> real list \<times> real list \<times> real list \<times> real list"
where
  "torsion_angle_terms rij rkj rkl =
     (let rkj_norm_square = 0 + rkj ! 0 * rkj ! 0 + rkj ! 1 * rkj ! 1 + rkj ! 2 * rkj ! 2;
          rkj_norm = sqrt rkj_norm_square;
          n1 = cross_product rij rkj;
          n2 = cross_product rkj rkl;
          n1_norm_square = dot_product n1 n1;
          n2_norm_square = dot_product n2 n2;
          n3 = cross_product n1 n2;
          rij_dot_rkj = dot_product rij rkj;
          rkl_dot_rkj = dot_product rkl rkj;
          d_angle_dR0 = map (\<lambda>d. rkj_norm / n1_norm_square * n1 ! d) [0, 1, 2];
          d_angle_dR3 = map (\<lambda>d. - rkj_norm / n2_norm_square * n2 ! d) [0, 1, 2];
          d_angle_dR1 =
            map (\<lambda>d. (rij_dot_rkj / rkj_norm_square - 1) * d_angle_dR0 ! d
                      - d_angle_dR3 ! d * rkl_dot_rkj / rkj_norm_square) [0, 1, 2];
          d_angle_dR2 =
            map (\<lambda>d. (rkl_dot_rkj / rkj_norm_square - 1) * d_angle_dR3 ! d
                      - d_angle_dR0 ! d * rij_dot_rkj / rkj_norm_square) [0, 1, 2];
          rkj_n = sqrt (dot_product rkj rkj);
          rkj_unit = map (\<lambda>v. v / rkj_n) rkj;
          y = dot_product n3 rkj_unit;
          x = dot_product n1 n2;
          angle = atan2 y x
      in (angle, d_angle_dR0, d_angle_dR1, d_angle_dR2, d_angle_dR3))"

text \<open>
  One thread of \<^verbatim>\<open>k_periodic_torsion\<close>, for the thread index \<open>t_idx\<close>
  (\<^verbatim>\<open>blockDim.x * blockIdx.x + threadIdx.x\<close>, an \<^verbatim>\<open>unsigned int\<close>, so that the comparison
  with \<open>T\<close> is unsigned). \<^verbatim>\<open>FLOAT_TO_FIXED_BONDED\<close> (k\_fixed\_point.cuh) is not among the
  sources and is a parameter.
\<close>

definition k_periodic_torsion_thread ::
  "(real \<Rightarrow> u64) \<Rightarrow> i32 \<Rightarrow> i32 \<Rightarrow> real mem \<Rightarrow> real mem \<Rightarrow> i32 mem
     \<Rightarrow> i32 \<Rightarrow> u64 outputs \<Rightarrow> u64 outputs"
where
  "k_periodic_torsion_thread FLOAT_TO_FIXED_BONDED D T coords params torsion_idxs t_idx out =
     (if T \<le> t_idx then out
      else
        let i_idx = torsion_idxs (uint (t_idx * 4 + 0));
            j_idx = torsion_idxs (uint (t_idx * 4 + 1));
            k_idx = torsion_idxs (uint (t_idx * 4 + 2));
            l_idx = torsion_idxs (uint (t_idx * 4 + 3));
            (rij, rkj, rkl) = torsion_displacements D coords i_idx j_idx k_idx l_idx;
            (angle, d_angle_dR0, d_angle_dR1, d_angle_dR2, d_angle_dR3) =
              torsion_angle_terms rij rkj rkl;
            kt_idx = t_idx * 3 + 0;
            phase_idx = t_idx * 3 + 1;
            period_idx = t_idx * 3 + 2;
            kt = params (sint kt_idx);
            phase = params (sint phase_idx);
            period = params (sint period_idx);
            prefactor = kt * sin (period * angle - phase) * period
        in \<lparr>du_dx_buf =
              (case du_dx_buf out of
                 None \<Rightarrow> None
               | Some du_dx \<Rightarrow>
                   Some (fold (\<lambda>d du_dx.
                     atomicAdd (atomicAdd (atomicAdd (atomicAdd du_dx
                       (sint (i_idx * D + of_nat d))
                         (FLOAT_TO_FIXED_BONDED (d_angle_dR0 ! d * prefactor)))
                       (sint (j_idx * D + of_nat d))
                         (FLOAT_TO_FIXED_BONDED (d_angle_dR1 ! d * prefactor)))
                       (sint (k_idx * D + of_nat d))
                         (FLOAT_TO_FIXED_BONDED (d_angle_dR2 ! d * prefactor)))
                       (sint (l_idx * D + of_nat d))
                         (FLOAT_TO_FIXED_BONDED (d_angle_dR3 ! d * prefactor)))
                     [0, 1, 2] du_dx)),
            du_dp_buf =
              (case du_dp_buf out of
                 None \<Rightarrow> None
               | Some du_dp \<Rightarrow>
                   let du_dkt = 1 + cos (period * angle - phase);
                       du_dphase = kt * sin (period * angle - phase);
                       du_dperiod = - kt * sin (period * angle - phase) * angle
                   in Some (atomicAdd (atomicAdd (atomicAdd du_dp
                        (sint kt_idx) (FLOAT_TO_FIXED_BONDED du_dkt))
                        (sint phase_idx) (FLOAT_TO_FIXED_BONDED du_dphase))
                        (sint period_idx) (FLOAT_TO_FIXED_BONDED du_dperiod))),
            u_buf =
              (case u_buf out of
                 None \<Rightarrow> None
               | Some u \<Rightarrow>
                   Some (atomicAdd u (sint i_idx)
                     (FLOAT_TO_FIXED_BONDED (kt * (1 + cos (period * angle - phase))))))\<rparr>)"

text \<open>
  A launch of the kernel runs the thread function once for every thread index of the
  grid. \<open>threads\<close> lists the indices in the order in which the threads take effect; the
  properties below hold for every such list.
\<close>

definition k_periodic_torsion ::
  "(real \<Rightarrow> u64) \<Rightarrow> i32 \<Rightarrow> i32 \<Rightarrow> real mem \<Rightarrow> real mem \<Rightarrow> i32 mem
     \<Rightarrow> i32 list \<Rightarrow> u64 outputs \<Rightarrow> u64 outputs"
where
  "k_periodic_torsion FLOAT_TO_FIXED_BONDED D T coords params torsion_idxs threads out =
     fold (k_periodic_torsion_thread FLOAT_TO_FIXED_BONDED D T coords params torsion_idxs)
       threads out"

section \<open>kernels/k\_log\_flat\_bottom\_bond.cuh\<close>

definition stable_log_1_exp_neg :: "real \<Rightarrow> real" where
  "stable_log_1_exp_neg x =
     (let LOG_2 = 0.693147180559945309417232121
      in if x < LOG_2 then ln (- expm1 (- x)) else log1p (- exp (- x)))"

text \<open>
  The loop of lines 46 to 53: the displacement from \<open>dst\<close> to \<open>src\<close>, each component
  reduced by the box diagonal \<^verbatim>\<open>box[d * 3 + d]\<close> times the nearest integer to the
  quotient.
\<close>

definition bond_displacement :: "real mem \<Rightarrow> real mem \<Rightarrow> i32 \<Rightarrow> i32 \<Rightarrow> real list" where
  "bond_displacement coords box src_idx dst_idx =
     map (\<lambda>d.
       let delta = coords (sint (src_idx * 3 + d)) - coords (sint (dst_idx * 3 + d));
           delta = delta - box (sint (d * 3 + d)) * nearbyint (delta / box (sint (d * 3 + d)))
       in delta) [0, 1, 2]"

text \<open>
  One thread of \<^verbatim>\<open>k_log_flat_bottom_bond\<close>. \<^verbatim>\<open>FLOAT_TO_FIXED_BONDED\<close> and
  \<^verbatim>\<open>FLOAT_TO_FIXED_ENERGY\<close> (k\_fixed\_point.cuh) and \<^verbatim>\<open>compute_flat_bottom_energy\<close>
  (k\_flat\_bottom\_bond.cuh) are not among the sources and are parameters.
\<close>

definition k_log_flat_bottom_bond_thread ::
  "(real \<Rightarrow> u64) \<Rightarrow> (real \<Rightarrow> i128) \<Rightarrow> (real \<Rightarrow> real \<Rightarrow> real \<Rightarrow> real \<Rightarrow> real)
     \<Rightarrow> i32 \<Rightarrow> real mem \<Rightarrow> real mem \<Rightarrow> real mem \<Rightarrow> i32 mem \<Rightarrow> real
     \<Rightarrow> i32 \<Rightarrow> i128 outputs \<Rightarrow> i128 outputs"
where
  "k_log_flat_bottom_bond_thread FLOAT_TO_FIXED_BONDED FLOAT_TO_FIXED_ENERGY
       compute_flat_bottom_energy B coords box params bond_idxs beta b_idx out =
     (if B \<le> b_idx then out
      else
        let atoms_idx = b_idx * 2;
            src_idx = bond_idxs (sint (atoms_idx + 0));
            dst_idx = bond_idxs (sint (atoms_idx + 1));
            params_idx = b_idx * 3;
            k_idx = params_idx + 0;
            rmin_idx = params_idx + 1;
            rmax_idx = params_idx + 2;
            k = params (sint k_idx);
            rmin = params (sint rmin_idx);
            rmax = params (sint rmax_idx);
            dx = bond_displacement coords box src_idx dst_idx;
            r2 = 0 + dx ! 0 * dx ! 0 + dx ! 1 * dx ! 1 + dx ! 2 * dx ! 2;
            r = sqrt r2;
            r_gt_rmax = (if rmax < r then 1 else 0);
            r_lt_rmin = (if r < rmin then 1 else 0);
            nrg = compute_flat_bottom_energy k r rmin rmax;
            prefactor = - exp (- beta * nrg) / (1 - exp (- beta * nrg))
        in \<lparr>du_dx_buf =
              (case du_dx_buf out of
                 None \<Rightarrow> None
               | Some du_dx \<Rightarrow>
                   let du_dr = k * ((r_gt_rmax * (r - rmax) ^ 3) + (r_lt_rmin * (r - rmin) ^ 3))
                   in Some (fold (\<lambda>d du_dx.
                        let du_dsrc_real = du_dr * dx ! d / r;
                            du_ddst_real = - du_dsrc_real;
                            du_dsrc = FLOAT_TO_FIXED_BONDED (prefactor * du_dsrc_real);
                            du_ddst = FLOAT_TO_FIXED_BONDED (prefactor * du_ddst_real)
                        in atomicAdd (atomicAdd du_dx
                             (sint (src_idx * 3 + of_nat d)) du_dsrc)
                             (sint (dst_idx * 3 + of_nat d)) du_ddst)
                        [0, 1, 2] du_dx)),
            du_dp_buf =
              (case du_dp_buf out of
                 None \<Rightarrow> None
               | Some du_dp \<Rightarrow>
                   let du_dk_real =
                         (r_gt_rmax * ((r - rmax) ^ 4 / 4)) + (r_lt_rmin * ((r - rmin) ^ 4 / 4));
                       du_drmin_real = r_lt_rmin * (- k * (r - rmin) ^ 3);
                       du_drmax_real = r_gt_rmax * (- k * (r - rmax) ^ 3);
                       du_dk = FLOAT_TO_FIXED_BONDED (du_dk_real * prefactor);
                       du_drmin = FLOAT_TO_FIXED_BONDED (du_drmin_real * prefactor);
                       du_drmax = FLOAT_TO_FIXED_BONDED (du_drmax_real * prefactor)
                   in Some (atomicAdd (atomicAdd (atomicAdd du_dp
                        (sint k_idx) du_dk)
                        (sint rmin_idx) du_drmin)
                        (sint rmax_idx) du_drmax)),
            u_buf =
              (case u_buf out of
                 None \<Rightarrow> None
               | Some u \<Rightarrow>
                   let u_real = - stable_log_1_exp_neg (beta * nrg) / beta
                   in Some (u(uint b_idx := FLOAT_TO_FIXED_ENERGY u_real)))\<rparr>)"

definition k_log_flat_bottom_bond ::
  "(real \<Rightarrow> u64) \<Rightarrow> (real \<Rightarrow> i128) \<Rightarrow> (real \<Rightarrow> real \<Rightarrow> real \<Rightarrow> real \<Rightarrow> real)
     \<Rightarrow> i32 \<Rightarrow> real mem \<Rightarrow> real mem \<Rightarrow> real mem \<Rightarrow> i32 mem \<Rightarrow> real
     \<Rightarrow> i32 list \<Rightarrow> i128 outputs \<Rightarrow> i128 outputs"
where
  "k_log_flat_bottom_bond FLOAT_TO_FIXED_BONDED FLOAT_TO_FIXED_ENERGY
       compute_flat_bottom_energy B coords box params bond_idxs beta threads out =
     fold (k_log_flat_bottom_bond_thread FLOAT_TO_FIXED_BONDED FLOAT_TO_FIXED_ENERGY
             compute_flat_bottom_energy B coords box params bond_idxs beta)
       threads out"

section \<open>Accumulation into output buffers\<close>

text \<open>
  The words of the specification for a buffer that receives contributions: the result
  is the prior contents plus the contributions, slot by slot. A null pointer stays
  null. \<open>zero_buffers\<close> is the state of the buffers after the orchestrator has cleared
  them.
\<close>

fun buf_plus :: "('a::plus) mem option \<Rightarrow> 'a mem option \<Rightarrow> 'a mem option" where
  "buf_plus None c = None"
| "buf_plus (Some a) None = Some a"
| "buf_plus (Some a) (Some c) = Some (\<lambda>i. a i + c i)"

definition outputs_plus :: "('e::plus) outputs \<Rightarrow> 'e outputs \<Rightarrow> 'e outputs" where
  "outputs_plus prior contrib =
     \<lparr>du_dx_buf = buf_plus (du_dx_buf prior) (du_dx_buf contrib),
      du_dp_buf = buf_plus (du_dp_buf prior) (du_dp_buf contrib),
      u_buf = buf_plus (u_buf prior) (u_buf contrib)\<rparr>"

definition zero_buf :: "('a::zero) mem option \<Rightarrow> 'a mem option" where
  "zero_buf b = (case b of None \<Rightarrow> None | Some a \<Rightarrow> Some (\<lambda>i. 0))"

definition zero_buffers :: "('e::zero) outputs \<Rightarrow> 'e outputs" where
  "zero_buffers out =
     \<lparr>du_dx_buf = zero_buf (du_dx_buf out),
      du_dp_buf = zero_buf (du_dp_buf out),
      u_buf = zero_buf (u_buf out)\<rparr>"

section \<open>PotentialRunner\<close>

text \<open>
  Modelled from the spec: \<^verbatim>\<open>PotentialRunner::execute_potentials\<close> and \<^verbatim>\<open>BoundPotential\<close>
  are not among the sources (only the call in \<^verbatim>\<open>LangevinIntegrator::step_fwd\<close> and the
  declaration of \<^verbatim>\<open>execute_device\<close> are). A bound potential is a potential, given by its
  \<^verbatim>\<open>execute_device(N, P, d_x, d_p, d_box, d_du_dx, d_du_dp, d_u)\<close>, paired with its
  parameter buffer. The runner zeroes every non-null output buffer and then dispatches
  each bound potential against the same positions and box and its own parameters, all
  of them on the same shared buffers. It serves as the runner of the integrator in the
  examples below.
\<close>

record BoundPotential =
  bp_execute_device ::
    "i32 \<Rightarrow> i32 \<Rightarrow> real mem \<Rightarrow> real mem \<Rightarrow> real mem \<Rightarrow> u64 outputs \<Rightarrow> u64 outputs"
  bp_P :: i32
  bp_d_p :: "real mem"

definition execute_potentials ::
  "BoundPotential list \<Rightarrow> i32 \<Rightarrow> real mem \<Rightarrow> real mem \<Rightarrow> u64 outputs \<Rightarrow> u64 outputs"
where
  "execute_potentials bps N d_x d_box out =
     fold (\<lambda>bp out. bp_execute_device bp N (bp_P bp) d_x (bp_d_p bp) d_box out)
       bps (zero_buffers out)"


section \<open>A round of kernel launches\<close>






section \<open>The Langevin integrator\<close>

text \<open>
  The constructor and \<^verbatim>\<open>step_fwd\<close> call functions that are not among the sources: the
  constant \<^verbatim>\<open>BOLTZ\<close> (constants.hpp), the cuRAND generator, the potential runner
  \<^verbatim>\<open>runner_.execute_potentials\<close> and the kernel \<^verbatim>\<open>update_forward_baoab\<close>
  (kernels/k\_integrator.cuh). They are the fields of the record \<open>callees\<close>, which the
  model takes as a parameter: the generator is a state \<open>'g\<close> that the draw of the normal
  values advances, the runner and the update kernel are functions of the buffers they are
  passed. Failures reported by \<^verbatim>\<open>gpuErrchk\<close> and \<^verbatim>\<open>curandErrchk\<close> are not represented.
\<close>

record ('g, 'bps) callees =
  BOLTZ :: real
  curandCreateGenerator :: 'g
  curandSetPseudoRandomGeneratorSeed :: "'g \<Rightarrow> i32 \<Rightarrow> 'g"
  templateCurandNormal :: "'g \<Rightarrow> nat \<Rightarrow> real \<Rightarrow> real \<Rightarrow> real list \<times> 'g"
  runner_execute_potentials ::
    "'bps \<Rightarrow> i32 \<Rightarrow> real mem \<Rightarrow> real mem \<Rightarrow> u64 outputs \<Rightarrow> u64 outputs"
  update_forward_baoab ::
    "i32 \<Rightarrow> i32 \<Rightarrow> real \<Rightarrow> i32 mem \<Rightarrow> real list \<Rightarrow> real list \<Rightarrow> real list
       \<Rightarrow> real mem \<Rightarrow> real mem \<Rightarrow> u64 mem \<Rightarrow> real \<Rightarrow> real mem \<times> real mem"

text \<open>
  Modelled from the spec: \<^verbatim>\<open>round_up_even\<close> (math\_utils.cuh) is not among the sources; it
  pads a count to an even number.
\<close>

definition round_up_even :: "nat \<Rightarrow> nat" where
  "round_up_even n = n + n mod 2"

text \<open>
  A fresh device allocation of \<open>n\<close> elements is not initialised: its cells hold whatever
  the device memory held, here \<open>garbage\<close>. Offsets outside the allocation are not memory
  and are fixed to 0. \<^verbatim>\<open>cudaMemsetAsync(p, 0, n * sizeof(*p))\<close> clears the first \<open>n\<close>
  elements.
\<close>

definition fresh_alloc :: "nat \<Rightarrow> ('a::zero) mem \<Rightarrow> 'a mem" where
  "fresh_alloc n garbage = (\<lambda>i. if 0 \<le> i \<and> i < int n then garbage i else 0)"

definition cudaMemset_zero :: "('a::zero) mem \<Rightarrow> nat \<Rightarrow> 'a mem" where
  "cudaMemset_zero p n = (\<lambda>i. if 0 \<le> i \<and> i < int n then 0 else p i)"

text \<open>
  The members of the class; the source's names end in an underscore, written \<open>_m\<close> here.
  \<open>d_cbs_m\<close> and \<open>d_ccs_m\<close> are the device copies of the host vectors \<open>h_cbs\<close> and \<open>h_ccs\<close>.
\<close>

record 'g LangevinIntegrator =
  N_m :: i32
  temperature_m :: real
  dt_m :: real
  friction_m :: real
  ca_m :: real
  d_cbs_m :: "real list"
  d_ccs_m :: "real list"
  cr_rng_m :: 'g
  d_noise_m :: "real list"
  d_du_dx_m :: "u64 mem"

text \<open>
  The constructor. \<open>uninit_noise\<close> and \<open>uninit_du_dx\<close> are the contents of the device
  memory that the two calls of \<^verbatim>\<open>cudaSafeMalloc\<close> hand out. A negative \<open>N\<close> makes the
  constructor of \<^verbatim>\<open>std::vector\<close> throw. The products \<^verbatim>\<open>N_ * 3\<close> are those of \<^verbatim>\<open>int\<close>.
\<close>

definition LangevinIntegrator_ctor ::
  "('g, 'bps) callees \<Rightarrow> real mem \<Rightarrow> u64 mem
     \<Rightarrow> i32 \<Rightarrow> real mem \<Rightarrow> real \<Rightarrow> real \<Rightarrow> real \<Rightarrow> i32
     \<Rightarrow> error + 'g LangevinIntegrator"
where
  "LangevinIntegrator_ctor env uninit_noise uninit_du_dx N masses temperature dt friction seed =
     (if sint N < 0 then Inl Length_error
      else
        let ca = exp (- friction * dt);
            kT = BOLTZ env * temperature;
            ccs_adjustment = sqrt (1 - exp (- 2 * friction * dt));
            h_cbs = map (\<lambda>i. dt / masses (int i)) [0..<nat (sint N)];
            h_ccs = map (\<lambda>i. ccs_adjustment * sqrt (kT / masses (int i))) [0..<nat (sint N)];
            cr_rng = curandCreateGenerator env;
            d_noise = map (\<lambda>i. uninit_noise (int i)) [0..<round_up_even (nat (sint (N * 3)))];
            cr_rng = curandSetPseudoRandomGeneratorSeed env cr_rng seed;
            d_du_dx = fresh_alloc (nat (sint (N * 3))) uninit_du_dx
        in Inr \<lparr>N_m = N, temperature_m = temperature, dt_m = dt, friction_m = friction,
                ca_m = ca, d_cbs_m = h_cbs, d_ccs_m = h_ccs, cr_rng_m = cr_rng,
                d_noise_m = d_noise, d_du_dx_m = d_du_dx\<rparr>)"

text \<open>
  \<^verbatim>\<open>step_fwd\<close> returns the integrator with its scratch buffers and generator as the step
  leaves them, and the positions and velocities that the update kernel has written.
\<close>

definition step_fwd ::
  "('g, 'bps) callees \<Rightarrow> 'g LangevinIntegrator \<Rightarrow> 'bps
     \<Rightarrow> real mem \<Rightarrow> real mem \<Rightarrow> real mem \<Rightarrow> i32 mem
     \<Rightarrow> 'g LangevinIntegrator \<times> real mem \<times> real mem"
where
  "step_fwd env this bps d_x_t d_v_t d_box_t d_idxs =
     (let D = 3;
          d_du_dx = cudaMemset_zero (d_du_dx_m this) (nat (sint (N_m this * D)));
          out = runner_execute_potentials env bps (N_m this) d_x_t d_box_t
                  \<lparr>du_dx_buf = Some d_du_dx, du_dp_buf = None, u_buf = None\<rparr>;
          d_du_dx = (case du_dx_buf out of None \<Rightarrow> d_du_dx | Some b \<Rightarrow> b);
          (d_noise, cr_rng) =
            templateCurandNormal env (cr_rng_m this)
              (round_up_even (nat (sint (N_m this * D)))) 0 1;
          (d_x_t, d_v_t) =
            update_forward_baoab env (N_m this) D (ca_m this) d_idxs (d_cbs_m this)
              (d_ccs_m this) d_noise d_x_t d_v_t d_du_dx (dt_m this)
      in (this\<lparr>cr_rng_m := cr_rng, d_noise_m := d_noise, d_du_dx_m := d_du_dx\<rparr>,
          d_x_t, d_v_t))"


section \<open>Auxiliary notions for the proofs\<close>

text \<open>
  A transformer of a buffer adds when its result is the prior contents plus, slot by
  slot, what it leaves in a cleared buffer.
\<close>

definition adds :: "(('a::comm_monoid_add) mem \<Rightarrow> 'a mem) \<Rightarrow> bool" where
  "adds f = (\<forall>a. f a = (\<lambda>i. a i + f (\<lambda>i. 0) i))"

text \<open>
  The effect of one thread of a kernel on each of its three output buffers, read off
  the thread function with the other two pointers null.
\<close>

definition torsion_du_dx_step ::
  "(real \<Rightarrow> u64) \<Rightarrow> i32 \<Rightarrow> i32 \<Rightarrow> real mem \<Rightarrow> real mem \<Rightarrow> i32 mem
     \<Rightarrow> i32 \<Rightarrow> u64 mem \<Rightarrow> u64 mem"
where
  "torsion_du_dx_step enc D T coords params idxs t b =
     the (du_dx_buf (k_periodic_torsion_thread enc D T coords params idxs t
        \<lparr>du_dx_buf = Some b, du_dp_buf = None, u_buf = None\<rparr>))"

definition torsion_du_dp_step ::
  "(real \<Rightarrow> u64) \<Rightarrow> i32 \<Rightarrow> i32 \<Rightarrow> real mem \<Rightarrow> real mem \<Rightarrow> i32 mem
     \<Rightarrow> i32 \<Rightarrow> u64 mem \<Rightarrow> u64 mem"
where
  "torsion_du_dp_step enc D T coords params idxs t b =
     the (du_dp_buf (k_periodic_torsion_thread enc D T coords params idxs t
        \<lparr>du_dx_buf = None, du_dp_buf = Some b, u_buf = None\<rparr>))"

definition torsion_u_step ::
  "(real \<Rightarrow> u64) \<Rightarrow> i32 \<Rightarrow> i32 \<Rightarrow> real mem \<Rightarrow> real mem \<Rightarrow> i32 mem
     \<Rightarrow> i32 \<Rightarrow> u64 mem \<Rightarrow> u64 mem"
where
  "torsion_u_step enc D T coords params idxs t b =
     the (u_buf (k_periodic_torsion_thread enc D T coords params idxs t
        \<lparr>du_dx_buf = None, du_dp_buf = None, u_buf = Some b\<rparr>))"

definition bond_du_dx_step ::
  "(real \<Rightarrow> u64) \<Rightarrow> (real \<Rightarrow> i128) \<Rightarrow> (real \<Rightarrow> real \<Rightarrow> real \<Rightarrow> real \<Rightarrow> real)
     \<Rightarrow> i32 \<Rightarrow> real mem \<Rightarrow> real mem \<Rightarrow> real mem \<Rightarrow> i32 mem \<Rightarrow> real
     \<Rightarrow> i32 \<Rightarrow> u64 mem \<Rightarrow> u64 mem"
where
  "bond_du_dx_step enc ence cfe B coords box params idxs beta b a =
     the (du_dx_buf (k_log_flat_bottom_bond_thread enc ence cfe B coords box params idxs beta b
        \<lparr>du_dx_buf = Some a, du_dp_buf = None, u_buf = None\<rparr>))"

definition bond_du_dp_step ::
  "(real \<Rightarrow> u64) \<Rightarrow> (real \<Rightarrow> i128) \<Rightarrow> (real \<Rightarrow> real \<Rightarrow> real \<Rightarrow> real \<Rightarrow> real)
     \<Rightarrow> i32 \<Rightarrow> real mem \<Rightarrow> real mem \<Rightarrow> real mem \<Rightarrow> i32 mem \<Rightarrow> real
     \<Rightarrow> i32 \<Rightarrow> u64 mem \<Rightarrow> u64 mem"
where
  "bond_du_dp_step enc ence cfe B coords box params idxs beta b a =
     the (du_dp_buf (k_log_flat_bottom_bond_thread enc ence cfe B coords box params idxs beta b
        \<lparr>du_dx_buf = None, du_dp_buf = Some a, u_buf = None\<rparr>))"

definition bond_u_step ::
  "(real \<Rightarrow> u64) \<Rightarrow> (real \<Rightarrow> i128) \<Rightarrow> (real \<Rightarrow> real \<Rightarrow> real \<Rightarrow> real \<Rightarrow> real)
     \<Rightarrow> i32 \<Rightarrow> real mem \<Rightarrow> real mem \<Rightarrow> real mem \<Rightarrow> i32 mem \<Rightarrow> real
     \<Rightarrow> i32 \<Rightarrow> i128 mem \<Rightarrow> i128 mem"
where
  "bond_u_step enc ence cfe B coords box params idxs beta b a =
     the (u_buf (k_log_flat_bottom_bond_thread enc ence cfe B coords box params idxs beta b
        \<lparr>du_dx_buf = None, du_dp_buf = None, u_buf = Some a\<rparr>))"





section \<open>Instances of the parameters, for evaluation\<close>

text \<open>
  Modelled from the spec: \<^verbatim>\<open>FLOAT_TO_FIXED_BONDED\<close> and \<^verbatim>\<open>FLOAT_TO_FIXED_ENERGY\<close>
  (k\_fixed\_point.cuh) are not among the sources. Encoding multiplies by the exponent of
  the channel and rounds to the nearest integer of the target width.
\<close>

definition FLOAT_TO_FIXED_BONDED :: "real \<Rightarrow> u64" where
  "FLOAT_TO_FIXED_BONDED v = word_of_int (round (v * real_of_int FIXED_EXPONENT))"

definition FLOAT_TO_FIXED_ENERGY :: "real \<Rightarrow> i128" where
  "FLOAT_TO_FIXED_ENERGY v = word_of_int (round (v * real_of_int FIXED_EXPONENT))"

text \<open>
  \<^verbatim>\<open>compute_flat_bottom_energy\<close> (k\_flat\_bottom\_bond.cuh) is not among the sources either.
  The instance below is the energy whose derivatives with respect to \<open>k\<close>, \<open>rmin\<close> and
  \<open>rmax\<close> are the expressions \<open>du_dk_real\<close>, \<open>du_drmin_real\<close> and \<open>du_drmax_real\<close> of the
  kernel. The kernels are only evaluated with these instances; the general theorems hold
  for every choice of the parameters.
\<close>

definition compute_flat_bottom_energy :: "real \<Rightarrow> real \<Rightarrow> real \<Rightarrow> real \<Rightarrow> real" where
  "compute_flat_bottom_energy k r rmin rmax =
     (let r_gt_rmax = (if rmax < r then 1 else 0);
          r_lt_rmin = (if r < rmin then 1 else 0)
      in (k / 4) * ((r_lt_rmin * (r - rmin) ^ 4) + (r_gt_rmax * (r - rmax) ^ 4)))"

section \<open>Example inputs\<close>

text \<open>
  A device array that holds the elements of a list. The examples are a pair of atoms
  joined by one flat bottom bond (\<open>k = 4\<close>, \<open>rmin = 1\<close>, \<open>rmax = 2\<close>) and four atoms
  forming one torsion (\<open>kt = 2\<close>, \<open>phase = 0\<close>, \<open>period = 1\<close>), both in a cubic box of
  side 10. The first two atoms of the torsion are \<open>9\<close> apart along the first axis, so
  that their nearest periodic images are \<open>1\<close> apart.
\<close>

definition mem_of_list :: "('a::zero) list \<Rightarrow> 'a mem" where
  "mem_of_list xs = (\<lambda>i. if 0 \<le> i \<and> i < int (length xs) then xs ! nat i else 0)"

definition two_atoms_coords :: "real mem" where
  "two_atoms_coords = mem_of_list [0, 0, 0, 3, 0, 0]"

definition cubic_box :: "real mem" where
  "cubic_box = mem_of_list [10, 0, 0, 0, 10, 0, 0, 0, 10]"

definition one_bond_idxs :: "i32 mem" where
  "one_bond_idxs = mem_of_list [0, 1]"

definition one_bond_params :: "real mem" where
  "one_bond_params = mem_of_list [4, 1, 2]"

definition four_atoms_coords :: "real mem" where
  "four_atoms_coords = mem_of_list [1 / 2, 0, 0, 19 / 2, 0, 0, 19 / 2, 1, 0, 19 / 2, 1, 1]"

definition one_torsion_idxs :: "i32 mem" where
  "one_torsion_idxs = mem_of_list [0, 1, 2, 3]"

definition one_torsion_params :: "real mem" where
  "one_torsion_params = mem_of_list [2, 0, 1]"







text \<open>
  Instances of the callees of the integrator, to run it on: a Boltzmann constant in
  kJ/(mol K); a stand-in generator whose state is a counter set from the seed and whose
  draws cycle through \<open>mean - stddev\<close>, \<open>mean\<close> and \<open>mean + stddev\<close>; the runner modelled
  above; and a stand-in for the update kernel, which applies to every atom the update of
  the specification (the velocity becomes \<open>ca\<close> times the old velocity plus \<open>cb\<close> times
  the decoded force plus \<open>cc\<close> times the noise, the position advances by the new velocity
  times \<open>dt\<close>). \<open>example_integrator\<close> is the integrator that the constructor builds for
  four atoms of mass 12 when the device memory it is handed holds the given values.
\<close>

definition example_update :: 
    "i32 \<Rightarrow> i32 \<Rightarrow> real \<Rightarrow> i32 mem \<Rightarrow> real list \<Rightarrow> real list \<Rightarrow> real list
       \<Rightarrow> real mem \<Rightarrow> real mem \<Rightarrow> u64 mem \<Rightarrow> real \<Rightarrow> real mem \<times> real mem"
where
  "example_update N D ca idxs cbs ccs noise x_t v_t du_dx dt =
     (let n = nat (sint N); dim = nat (sint D);
          v_new = (\<lambda>j. if 0 \<le> j \<and> j < int (n * dim)
                      then ca * v_t j + cbs ! (nat j div dim) * FIXED_TO_FLOAT (du_dx j)
                             + ccs ! (nat j div dim) * noise ! nat j
                      else v_t j)
      in (\<lambda>j. if 0 \<le> j \<and> j < int (n * dim) then x_t j + v_new j * dt else x_t j, v_new))"

definition example_callees :: "(nat, BoundPotential list) callees" where
  "example_callees =
     \<lparr>BOLTZ = 0.0083144626,
      curandCreateGenerator = 0,
      curandSetPseudoRandomGeneratorSeed = (\<lambda>g seed. unat seed),
      templateCurandNormal =
        (\<lambda>g n mean stddev.
           (map (\<lambda>i. mean + stddev * (real ((g + i) mod 3) - 1)) [0..<n], g + n)),
      runner_execute_potentials = execute_potentials,
      update_forward_baoab = example_update\<rparr>"

definition example_integrator :: "real \<Rightarrow> u64 \<Rightarrow> nat LangevinIntegrator" where
  "example_integrator noise_garbage du_dx_garbage =
     projr (LangevinIntegrator_ctor example_callees (\<lambda>i. noise_garbage) (\<lambda>i. du_dx_garbage)
       4 (\<lambda>i. 12) 300 (1 / 1000) 1 7)"

section \<open>Properties of the fixed-point codec\<close>

lemma sint_LLONG_MAX: "sint LLONG_MAX = 2 ^ 63 - 1"
  by (simp add: LLONG_MAX_def)

lemma sint_LLONG_MIN: "sint LLONG_MIN = - (2 ^ 63)"
  by (simp add: LLONG_MIN_def)

lemma sint_scast_LLONG_MAX: "sint (scast LLONG_MAX :: i128) = 2 ^ 63 - 1"
  by (simp add: LLONG_MAX_def)

lemma sint_scast_LLONG_MIN: "sint (scast LLONG_MIN :: i128) = - (2 ^ 63)"
  by (simp add: LLONG_MIN_def)

lemma fixed_point_overflow_sint:
  "fixed_point_overflow v \<longleftrightarrow> 2 ^ 63 - 1 \<le> sint v \<or> sint v \<le> - (2 ^ 63)"
  by (simp add: fixed_point_overflow_def Let_def word_sle_eq
      sint_scast_LLONG_MAX sint_scast_LLONG_MIN)

lemma sint128_eq_iff: "(v :: i128) = w \<longleftrightarrow> sint v = sint w"
  by (auto simp: word_eq_iff_signed)

text \<open>
  C1, as amended. \<open>fixed_point_overflow\<close> returns true exactly when the wide value has left
  the range of \<^verbatim>\<open>long long\<close> or is one of the two ends of that range, that is, exactly
  when it does not lie strictly between \<open>LLONG_MIN\<close> and \<open>LLONG_MAX\<close>.
\<close>

theorem fixed_point_overflow_iff:
  "(fixed_point_overflow v \<longleftrightarrow>
      left_long_long_range v \<or> v = scast LLONG_MAX \<or> v = scast LLONG_MIN) \<and>
   (fixed_point_overflow v \<longleftrightarrow> \<not> (sint LLONG_MIN < sint v \<and> sint v < sint LLONG_MAX))"
  by (auto simp add: fixed_point_overflow_sint left_long_long_range_def sint128_eq_iff
      sint_scast_LLONG_MAX sint_scast_LLONG_MIN sint_LLONG_MAX sint_LLONG_MIN)

text \<open>
  At the upper end of the range and above it the check reports overflow, just below it
  does not; the same at the lower end.
\<close>

theorem fixed_point_overflow_iff_witness:
  "fixed_point_overflow (scast LLONG_MAX) \<and>
   fixed_point_overflow (scast LLONG_MAX + 1) \<and>
   \<not> fixed_point_overflow (scast LLONG_MAX - 1) \<and>
   fixed_point_overflow (scast LLONG_MIN) \<and>
   \<not> fixed_point_overflow (scast LLONG_MIN + 1)"
  using fixed_point_overflow_iff [of "scast LLONG_MAX"]
    fixed_point_overflow_iff [of "scast LLONG_MAX + 1"]
    fixed_point_overflow_iff [of "scast LLONG_MAX - 1"]
    fixed_point_overflow_iff [of "scast LLONG_MIN"]
    fixed_point_overflow_iff [of "scast LLONG_MIN + 1"]
  by (simp add: LLONG_MAX_def LLONG_MIN_def left_long_long_range_def)

text \<open>
  C1 as stated fails: \<open>LLONG_MAX\<close> is a value of \<^verbatim>\<open>long long\<close>, so the accumulated value
  has not left the range, and the check reports overflow.
\<close>

theorem fixed_point_overflow_in_range_counterexample:
  "fixed_point_overflow (scast LLONG_MAX) \<and> \<not> left_long_long_range (scast LLONG_MAX)"
  by (simp add: fixed_point_overflow_sint left_long_long_range_def
      sint_scast_LLONG_MAX sint_LLONG_MAX sint_LLONG_MIN)

section \<open>Accumulation by the kernels\<close>

lemma addsD: "adds f \<Longrightarrow> f a i = a i + f (\<lambda>i. 0) i"
  unfolding adds_def by (erule allE [of _ a]) (erule fun_cong)

lemma addsI: "(\<And>a i. f a i = a i + f (\<lambda>i. 0) i) \<Longrightarrow> adds f"
  unfolding adds_def by (intro allI ext)

lemma adds_atomicAdd: "adds (\<lambda>b. atomicAdd b off v)"
  by (rule addsI) (simp add: atomicAdd_def)

lemma adds_id: "adds (\<lambda>b. b)"
  by (rule addsI) simp

lemma adds_comp:
  assumes f: "adds f" and g: "adds g"
  shows "adds (\<lambda>b. g (f b))"
proof (rule addsI)
  fix a i
  have "g (f a) i = f a i + g (\<lambda>i. 0) i"
    by (rule addsD [OF g])
  also have "f a i = a i + f (\<lambda>i. 0) i"
    by (rule addsD [OF f])
  finally have 1: "g (f a) i = a i + f (\<lambda>i. 0) i + g (\<lambda>i. 0) i" .
  have 2: "g (f (\<lambda>i. 0)) i = f (\<lambda>i. 0) i + g (\<lambda>i. 0) i"
    by (rule addsD [OF g])
  show "g (f a) i = a i + g (f (\<lambda>i. 0)) i"
    unfolding 1 2 by (simp only: add.assoc)
qed

lemma adds_fold:
  assumes "\<And>x. x \<in> set xs \<Longrightarrow> adds (step x)"
  shows "adds (fold step xs)"
  using assms
proof (induction xs)
  case Nil
  show ?case by (rule addsI) simp
next
  case (Cons x xs)
  have a1: "adds (step x)"
    by (rule Cons.prems) simp
  have a2: "adds (fold step xs)"
    by (rule Cons.IH) (rule Cons.prems, simp)
  have "adds (\<lambda>b. fold step xs (step x b))"
    by (rule adds_comp [OF a1 a2])
  moreover have "fold step (x # xs) = (\<lambda>b. fold step xs (step x b))"
    by (rule ext) simp
  ultimately show ?case by (simp only:)
qed


lemma buf_plus_map_option:
  assumes "adds f"
  shows "map_option f b = buf_plus b (map_option f (zero_buf b))"
proof (cases b)
  case None
  then show ?thesis by simp
next
  case (Some a)
  have "f a = (\<lambda>i. a i + f (\<lambda>i. 0) i)"
    by (rule ext) (rule addsD [OF assms])
  with Some show ?thesis by (simp add: zero_buf_def)
qed

lemma torsion_thread_du_dx:
  "du_dx_buf (k_periodic_torsion_thread enc D T coords params idxs t out) =
     map_option (torsion_du_dx_step enc D T coords params idxs t) (du_dx_buf out)"
  unfolding k_periodic_torsion_thread_def torsion_du_dx_step_def
  by (cases "du_dx_buf out") (simp_all add: Let_def case_prod_beta)

lemma torsion_thread_du_dp:
  "du_dp_buf (k_periodic_torsion_thread enc D T coords params idxs t out) =
     map_option (torsion_du_dp_step enc D T coords params idxs t) (du_dp_buf out)"
  unfolding k_periodic_torsion_thread_def torsion_du_dp_step_def
  by (cases "du_dp_buf out") (simp_all add: Let_def case_prod_beta)

lemma torsion_thread_u:
  "u_buf (k_periodic_torsion_thread enc D T coords params idxs t out) =
     map_option (torsion_u_step enc D T coords params idxs t) (u_buf out)"
  unfolding k_periodic_torsion_thread_def torsion_u_step_def
  by (cases "u_buf out") (simp_all add: Let_def case_prod_beta)

lemma adds_atomicAdd_after: "adds f \<Longrightarrow> adds (\<lambda>b. atomicAdd (f b) off v)"
  by (rule adds_comp [OF _ adds_atomicAdd])

lemma adds_torsion_du_dx_step: "adds (torsion_du_dx_step enc D T coords params idxs t)"
  unfolding torsion_du_dx_step_def k_periodic_torsion_thread_def
  by (cases "T \<le> t") (simp_all add: Let_def case_prod_beta adds_id adds_atomicAdd_after)

lemma adds_torsion_du_dp_step: "adds (torsion_du_dp_step enc D T coords params idxs t)"
  unfolding torsion_du_dp_step_def k_periodic_torsion_thread_def
  by (cases "T \<le> t") (simp_all add: Let_def case_prod_beta adds_id adds_atomicAdd_after)

lemma adds_torsion_u_step: "adds (torsion_u_step enc D T coords params idxs t)"
  unfolding torsion_u_step_def k_periodic_torsion_thread_def
  by (cases "T \<le> t") (simp_all add: Let_def case_prod_beta adds_id adds_atomicAdd_after)

lemma fold_field_map_option:
  assumes "\<And>t out. sel (thread t out) = map_option (step t) (sel out)"
  shows "sel (fold thread threads out) = map_option (fold step threads) (sel out)"
proof (induction threads arbitrary: out)
  case Nil
  show ?case by (simp add: option.map_ident)
next
  case (Cons t ts)
  have "sel (fold thread (t # ts) out) = map_option (fold step ts) (sel (thread t out))"
    by (simp add: Cons)
  also have "\<dots> = map_option (fold step ts) (map_option (step t) (sel out))"
    by (simp only: assms)
  also have "\<dots> = map_option (fold step (t # ts)) (sel out)"
    by (simp add: option.map_comp comp_def)
  finally show ?case .
qed

lemma torsion_kernel_du_dx:
  "du_dx_buf (k_periodic_torsion enc D T coords params idxs threads out) =
     map_option (fold (torsion_du_dx_step enc D T coords params idxs) threads) (du_dx_buf out)"
  unfolding k_periodic_torsion_def
  by (rule fold_field_map_option) (rule torsion_thread_du_dx)

lemma torsion_kernel_du_dp:
  "du_dp_buf (k_periodic_torsion enc D T coords params idxs threads out) =
     map_option (fold (torsion_du_dp_step enc D T coords params idxs) threads) (du_dp_buf out)"
  unfolding k_periodic_torsion_def
  by (rule fold_field_map_option) (rule torsion_thread_du_dp)

lemma torsion_kernel_u:
  "u_buf (k_periodic_torsion enc D T coords params idxs threads out) =
     map_option (fold (torsion_u_step enc D T coords params idxs) threads) (u_buf out)"
  unfolding k_periodic_torsion_def
  by (rule fold_field_map_option) (rule torsion_thread_u)

lemma outputs_eqI:
  "du_dx_buf a = du_dx_buf b \<Longrightarrow> du_dp_buf a = du_dp_buf b \<Longrightarrow> u_buf a = u_buf b
     \<Longrightarrow> (a :: 'e outputs) = b"
  by simp

lemma torsion_kernel_accumulates:
  "k_periodic_torsion enc D T coords params idxs threads out =
     outputs_plus out (k_periodic_torsion enc D T coords params idxs threads (zero_buffers out))"
proof (rule outputs_eqI)
  show "du_dx_buf (k_periodic_torsion enc D T coords params idxs threads out) =
      du_dx_buf (outputs_plus out
        (k_periodic_torsion enc D T coords params idxs threads (zero_buffers out)))"
    unfolding outputs_plus_def zero_buffers_def outputs.simps torsion_kernel_du_dx
    by (rule buf_plus_map_option) (rule adds_fold, rule adds_torsion_du_dx_step)
  show "du_dp_buf (k_periodic_torsion enc D T coords params idxs threads out) =
      du_dp_buf (outputs_plus out
        (k_periodic_torsion enc D T coords params idxs threads (zero_buffers out)))"
    unfolding outputs_plus_def zero_buffers_def outputs.simps torsion_kernel_du_dp
    by (rule buf_plus_map_option) (rule adds_fold, rule adds_torsion_du_dp_step)
  show "u_buf (k_periodic_torsion enc D T coords params idxs threads out) =
      u_buf (outputs_plus out
        (k_periodic_torsion enc D T coords params idxs threads (zero_buffers out)))"
    unfolding outputs_plus_def zero_buffers_def outputs.simps torsion_kernel_u
    by (rule buf_plus_map_option) (rule adds_fold, rule adds_torsion_u_step)
qed

lemma bond_thread_du_dx:
  "du_dx_buf (k_log_flat_bottom_bond_thread enc ence cfe B coords box params idxs beta b out) =
     map_option (bond_du_dx_step enc ence cfe B coords box params idxs beta b) (du_dx_buf out)"
  unfolding k_log_flat_bottom_bond_thread_def bond_du_dx_step_def
  by (cases "du_dx_buf out") (simp_all add: Let_def)

lemma bond_thread_du_dp:
  "du_dp_buf (k_log_flat_bottom_bond_thread enc ence cfe B coords box params idxs beta b out) =
     map_option (bond_du_dp_step enc ence cfe B coords box params idxs beta b) (du_dp_buf out)"
  unfolding k_log_flat_bottom_bond_thread_def bond_du_dp_step_def
  by (cases "du_dp_buf out") (simp_all add: Let_def)

lemma bond_thread_u:
  "u_buf (k_log_flat_bottom_bond_thread enc ence cfe B coords box params idxs beta b out) =
     map_option (bond_u_step enc ence cfe B coords box params idxs beta b) (u_buf out)"
  unfolding k_log_flat_bottom_bond_thread_def bond_u_step_def
  by (cases "u_buf out") (simp_all add: Let_def)

lemma adds_bond_du_dx_step:
  "adds (bond_du_dx_step enc ence cfe B coords box params idxs beta b)"
  unfolding bond_du_dx_step_def k_log_flat_bottom_bond_thread_def
  by (cases "B \<le> b") (simp_all add: Let_def adds_id adds_atomicAdd_after)

lemma adds_bond_du_dp_step:
  "adds (bond_du_dp_step enc ence cfe B coords box params idxs beta b)"
  unfolding bond_du_dp_step_def k_log_flat_bottom_bond_thread_def
  by (cases "B \<le> b") (simp_all add: Let_def adds_id adds_atomicAdd_after)

lemma bond_u_step_store:
  "bond_u_step enc ence cfe B coords box params idxs beta b a =
     (if B \<le> b then a
      else a(uint b := bond_u_step enc ence cfe B coords box params idxs beta b (\<lambda>i. 0) (uint b)))"
  unfolding bond_u_step_def k_log_flat_bottom_bond_thread_def
  by (cases "B \<le> b") (simp_all add: Let_def)

lemma bond_kernel_du_dx:
  "du_dx_buf (k_log_flat_bottom_bond enc ence cfe B coords box params idxs beta threads out) =
     map_option (fold (bond_du_dx_step enc ence cfe B coords box params idxs beta) threads)
       (du_dx_buf out)"
  unfolding k_log_flat_bottom_bond_def
  by (rule fold_field_map_option) (rule bond_thread_du_dx)

lemma bond_kernel_du_dp:
  "du_dp_buf (k_log_flat_bottom_bond enc ence cfe B coords box params idxs beta threads out) =
     map_option (fold (bond_du_dp_step enc ence cfe B coords box params idxs beta) threads)
       (du_dp_buf out)"
  unfolding k_log_flat_bottom_bond_def
  by (rule fold_field_map_option) (rule bond_thread_du_dp)

lemma bond_kernel_u:
  "u_buf (k_log_flat_bottom_bond enc ence cfe B coords box params idxs beta threads out) =
     map_option (fold (bond_u_step enc ence cfe B coords box params idxs beta) threads)
       (u_buf out)"
  unfolding k_log_flat_bottom_bond_def
  by (rule fold_field_map_option) (rule bond_thread_u)

lemma fold_store_slots:
  assumes step: "\<And>b a. step b a = (if B \<le> b then a else a(uint b := val b))"
  shows "fold step threads a s =
     (if s \<in> uint ` {b \<in> set threads. b < B} then fold step threads (\<lambda>i. 0) s else a s)"
proof (induction threads arbitrary: a rule: rev_induct)
  case Nil
  show ?case by simp
next
  case (snoc t ts)
  have F: "fold step (ts @ [t]) a' =
      (if B \<le> t then fold step ts a' else (fold step ts a')(uint t := val t))" for a'
    using step [of t "fold step ts a'"] by simp
  show ?case
  proof (cases "B \<le> t")
    case True
    then have W: "{b \<in> set (ts @ [t]). b < B} = {b \<in> set ts. b < B}"
      by auto
    from True show ?thesis
      using snoc [of a] unfolding F W by simp
  next
    case False
    then have W: "{b \<in> set (ts @ [t]). b < B} = insert t {b \<in> set ts. b < B}"
      by auto
    show ?thesis
    proof (cases "s = uint t")
      case True
      with False show ?thesis unfolding F W by simp
    next
      case neq: False
      with False show ?thesis
        using snoc [of a] unfolding F W by simp
    qed
  qed
qed

lemma bond_kernel_u_store:
  "u_buf (k_log_flat_bottom_bond enc ence cfe B coords box params idxs beta threads
       \<lparr>du_dx_buf = x, du_dp_buf = p, u_buf = Some a\<rparr>) =
     Some (\<lambda>s. if s \<in> uint ` {b \<in> set threads. b < B}
        then the (u_buf (k_log_flat_bottom_bond enc ence cfe B coords box params idxs beta threads
               \<lparr>du_dx_buf = x, du_dp_buf = p, u_buf = Some (\<lambda>i. 0)\<rparr>)) s
        else a s)"
proof -
  have "fold (bond_u_step enc ence cfe B coords box params idxs beta) threads a =
     (\<lambda>s. if s \<in> uint ` {b \<in> set threads. b < B}
        then fold (bond_u_step enc ence cfe B coords box params idxs beta) threads (\<lambda>i. 0) s
        else a s)"
    by (rule ext) (rule fold_store_slots [OF bond_u_step_store])
  then show ?thesis
    unfolding bond_kernel_u outputs.simps option.map option.sel by (rule arg_cong)
qed

section \<open>Evaluation of the kernels on the examples\<close>

lemma nearbyint_example: "nearbyint (- (3 / 10)) = 0" "nearbyint 0 = 0" "nearbyint (9 / 10) = 1"
  by (simp_all add: nearbyint_def Let_def)

lemma sqrt_9: "sqrt 9 = 3"
  using real_sqrt_abs [of 3] by simp

lemma bond_displacement_two_atoms:
  "bond_displacement two_atoms_coords cubic_box 0 1 = [- 3, 0, 0]"
  by (simp add: bond_displacement_def two_atoms_coords_def cubic_box_def mem_of_list_def
      Let_def nearbyint_example)

lemma bond_example_energy:
  "the (u_buf (k_log_flat_bottom_bond FLOAT_TO_FIXED_BONDED FLOAT_TO_FIXED_ENERGY
       compute_flat_bottom_energy 1 two_atoms_coords cubic_box one_bond_params one_bond_idxs 1 [0]
       \<lparr>du_dx_buf = None, du_dp_buf = None, u_buf = Some (\<lambda>i. c)\<rparr>)) 0 =
   FLOAT_TO_FIXED_ENERGY (- ln (1 - exp (- 1)))"
proof -
  have idx: "one_bond_idxs 0 = 0" "one_bond_idxs 1 = 1"
    by (simp_all add: one_bond_idxs_def mem_of_list_def)
  have par: "one_bond_params 0 = 4" "one_bond_params 1 = 1" "one_bond_params 2 = 2"
    by (simp_all add: one_bond_params_def mem_of_list_def)
  show ?thesis
    by (simp add: k_log_flat_bottom_bond_def k_log_flat_bottom_bond_thread_def Let_def
        idx par bond_displacement_two_atoms sqrt_9 compute_flat_bottom_energy_def
        stable_log_1_exp_neg_def log1p_def)
qed

lemma torsion_displacements_four_atoms:
  "torsion_displacements 3 four_atoms_coords 0 1 2 3 = ([9, 0, 0], [0, - 1, 0], [0, 0, 1])"
  by (simp add: torsion_displacements_def four_atoms_coords_def mem_of_list_def)

lemma torsion_angle_four_atoms:
  "fst (torsion_angle_terms [9, 0, 0] [0, - 1, 0] [0, 0, 1]) = - pi / 2"
  by (simp add: torsion_angle_terms_def Let_def cross_product_def dot_product_def rmul_rn_def
      atan2_def)

lemma encode_2: "FLOAT_TO_FIXED_BONDED 2 = 0x2000000000"
  by (simp add: FLOAT_TO_FIXED_BONDED_def FIXED_EXPONENT_def)

lemma torsion_idx_example:
  "one_torsion_idxs 0 = 0" "one_torsion_idxs 1 = 1" "one_torsion_idxs 2 = 2"
  "one_torsion_idxs 3 = 3"
  by (simp_all add: one_torsion_idxs_def mem_of_list_def)

lemma torsion_params_example:
  "one_torsion_params 0 = 2" "one_torsion_params 1 = 0" "one_torsion_params 2 = 1"
  by (simp_all add: one_torsion_params_def mem_of_list_def)

lemma torsion_example_u:
  "u_buf (k_periodic_torsion_thread FLOAT_TO_FIXED_BONDED 3 1 four_atoms_coords
      one_torsion_params one_torsion_idxs 0
      \<lparr>du_dx_buf = None, du_dp_buf = None, u_buf = Some a\<rparr>) =
   Some (a(0 := a 0 + 0x2000000000))"
  by (simp add: k_periodic_torsion_thread_def Let_def case_prod_beta torsion_idx_example
      torsion_params_example torsion_displacements_four_atoms torsion_angle_four_atoms
      atomicAdd_def encode_2)

section \<open>Claims about the kernels\<close>

text \<open>
  C2, as amended. Whatever the order in which the threads take effect, a launch of
  \<^verbatim>\<open>k_periodic_torsion\<close> leaves in every non-null buffer (forces, parameter gradients,
  energy) the prior contents plus the contributions it makes to cleared buffers, and a
  launch of \<^verbatim>\<open>k_log_flat_bottom_bond\<close> does so for the forces and the parameter gradients.
  The energy buffer of \<^verbatim>\<open>k_log_flat_bottom_bond\<close> is not added to: the slot \<^verbatim>\<open>u[b_idx]\<close> of
  every bond \<open>b_idx < B\<close> that a thread handles is overwritten with the encoded energy of
  the bond, whatever it held, and every other slot keeps its contents.
\<close>

theorem kernels_accumulate:
  "k_periodic_torsion enc D T coords params torsion_idxs threads out =
     outputs_plus out
       (k_periodic_torsion enc D T coords params torsion_idxs threads (zero_buffers out)) \<and>
   du_dx_buf (k_log_flat_bottom_bond enc ence cfe B coords box params' bond_idxs beta threads' out') =
     buf_plus (du_dx_buf out')
       (du_dx_buf (k_log_flat_bottom_bond enc ence cfe B coords box params' bond_idxs beta threads'
          (zero_buffers out'))) \<and>
   du_dp_buf (k_log_flat_bottom_bond enc ence cfe B coords box params' bond_idxs beta threads' out') =
     buf_plus (du_dp_buf out')
       (du_dp_buf (k_log_flat_bottom_bond enc ence cfe B coords box params' bond_idxs beta threads'
          (zero_buffers out'))) \<and>
   u_buf (k_log_flat_bottom_bond enc ence cfe B coords box params' bond_idxs beta threads'
       \<lparr>du_dx_buf = x, du_dp_buf = p, u_buf = Some a\<rparr>) =
     Some (\<lambda>s. if s \<in> uint ` {b \<in> set threads'. b < B}
        then the (u_buf (k_log_flat_bottom_bond enc ence cfe B coords box params' bond_idxs beta
               threads' \<lparr>du_dx_buf = x, du_dp_buf = p, u_buf = Some (\<lambda>i. 0)\<rparr>)) s
        else a s)"
proof (intro conjI)
  show "k_periodic_torsion enc D T coords params torsion_idxs threads out =
     outputs_plus out
       (k_periodic_torsion enc D T coords params torsion_idxs threads (zero_buffers out))"
    by (rule torsion_kernel_accumulates)
  show "du_dx_buf (k_log_flat_bottom_bond enc ence cfe B coords box params' bond_idxs beta threads' out') =
     buf_plus (du_dx_buf out')
       (du_dx_buf (k_log_flat_bottom_bond enc ence cfe B coords box params' bond_idxs beta threads'
          (zero_buffers out')))"
    unfolding zero_buffers_def bond_kernel_du_dx outputs.simps
    by (rule buf_plus_map_option) (rule adds_fold, rule adds_bond_du_dx_step)
  show "du_dp_buf (k_log_flat_bottom_bond enc ence cfe B coords box params' bond_idxs beta threads' out') =
     buf_plus (du_dp_buf out')
       (du_dp_buf (k_log_flat_bottom_bond enc ence cfe B coords box params' bond_idxs beta threads'
          (zero_buffers out')))"
    unfolding zero_buffers_def bond_kernel_du_dp outputs.simps
    by (rule buf_plus_map_option) (rule adds_fold, rule adds_bond_du_dp_step)
  show "u_buf (k_log_flat_bottom_bond enc ence cfe B coords box params' bond_idxs beta threads'
       \<lparr>du_dx_buf = x, du_dp_buf = p, u_buf = Some a\<rparr>) =
     Some (\<lambda>s. if s \<in> uint ` {b \<in> set threads'. b < B}
        then the (u_buf (k_log_flat_bottom_bond enc ence cfe B coords box params' bond_idxs beta
               threads' \<lparr>du_dx_buf = x, du_dp_buf = p, u_buf = Some (\<lambda>i. 0)\<rparr>)) s
        else a s)"
    by (rule bond_kernel_u_store)
qed

text \<open>
  The torsion kernel on the example, with the energy buffer holding 7 in every slot:
  slot 0, that of the first atom, ends as 7 plus the encoded energy \<open>2 * 2 ^ 36\<close>.
\<close>

theorem kernels_accumulate_witness:
  "u_buf (k_periodic_torsion FLOAT_TO_FIXED_BONDED 3 1 four_atoms_coords
      one_torsion_params one_torsion_idxs [0]
      \<lparr>du_dx_buf = None, du_dp_buf = None, u_buf = Some (\<lambda>i. 7)\<rparr>) =
   Some (\<lambda>i. 7 + (if i = 0 then 0x2000000000 else 0))"
  using kernels_accumulate [of FLOAT_TO_FIXED_BONDED 3 1 four_atoms_coords
      one_torsion_params one_torsion_idxs "[0]"
      "\<lparr>du_dx_buf = None, du_dp_buf = None, u_buf = Some (\<lambda>i. 7)\<rparr>"]
  by (simp add: k_periodic_torsion_def torsion_example_u zero_buffers_def zero_buf_def
      outputs_plus_def fun_eq_iff)

text \<open>
  C2 as stated fails for the energy buffer of \<^verbatim>\<open>k_log_flat_bottom_bond\<close>. On the example
  bond (\<open>r = 3\<close>, energy \<open>1\<close>, \<open>beta = 1\<close>) with 5 in every slot of the energy buffer, slot
  0 ends as the encoded energy alone, not as 5 plus the contribution made to a cleared
  buffer.
\<close>

theorem energy_store_counterexample:
  "the (u_buf (k_log_flat_bottom_bond FLOAT_TO_FIXED_BONDED FLOAT_TO_FIXED_ENERGY
       compute_flat_bottom_energy 1 two_atoms_coords cubic_box one_bond_params one_bond_idxs 1 [0]
       \<lparr>du_dx_buf = None, du_dp_buf = None, u_buf = Some (\<lambda>i. 5)\<rparr>)) 0 =
     FLOAT_TO_FIXED_ENERGY (- ln (1 - exp (- 1))) \<and>
   the (u_buf (k_log_flat_bottom_bond FLOAT_TO_FIXED_BONDED FLOAT_TO_FIXED_ENERGY
       compute_flat_bottom_energy 1 two_atoms_coords cubic_box one_bond_params one_bond_idxs 1 [0]
       \<lparr>du_dx_buf = None, du_dp_buf = None, u_buf = Some (\<lambda>i. 5)\<rparr>)) 0 \<noteq>
     5 + the (u_buf (k_log_flat_bottom_bond FLOAT_TO_FIXED_BONDED FLOAT_TO_FIXED_ENERGY
       compute_flat_bottom_energy 1 two_atoms_coords cubic_box one_bond_params one_bond_idxs 1 [0]
       \<lparr>du_dx_buf = None, du_dp_buf = None, u_buf = Some (\<lambda>i. 0)\<rparr>)) 0"
  by (simp only: bond_example_energy) simp

text \<open>
  C6. In both kernels a null output pointer stays null, so nothing is accumulated for
  that quantity, and what a non-null buffer receives does not depend on the other two
  pointers: it is the same with them null, or non-null with any contents, as with all
  three pointers non-null.
\<close>

theorem null_pointer_skips:
  "du_dx_buf (k_periodic_torsion enc D T coords params torsion_idxs threads
      \<lparr>du_dx_buf = None, du_dp_buf = p, u_buf = e\<rparr>) = None \<and>
   du_dp_buf (k_periodic_torsion enc D T coords params torsion_idxs threads
      \<lparr>du_dx_buf = x, du_dp_buf = None, u_buf = e\<rparr>) = None \<and>
   u_buf (k_periodic_torsion enc D T coords params torsion_idxs threads
      \<lparr>du_dx_buf = x, du_dp_buf = p, u_buf = None\<rparr>) = None \<and>
   du_dx_buf (k_periodic_torsion enc D T coords params torsion_idxs threads
      \<lparr>du_dx_buf = Some a, du_dp_buf = p, u_buf = e\<rparr>) =
     du_dx_buf (k_periodic_torsion enc D T coords params torsion_idxs threads
      \<lparr>du_dx_buf = Some a, du_dp_buf = Some p', u_buf = Some e'\<rparr>) \<and>
   du_dp_buf (k_periodic_torsion enc D T coords params torsion_idxs threads
      \<lparr>du_dx_buf = x, du_dp_buf = Some a, u_buf = e\<rparr>) =
     du_dp_buf (k_periodic_torsion enc D T coords params torsion_idxs threads
      \<lparr>du_dx_buf = Some x', du_dp_buf = Some a, u_buf = Some e'\<rparr>) \<and>
   u_buf (k_periodic_torsion enc D T coords params torsion_idxs threads
      \<lparr>du_dx_buf = x, du_dp_buf = p, u_buf = Some a\<rparr>) =
     u_buf (k_periodic_torsion enc D T coords params torsion_idxs threads
      \<lparr>du_dx_buf = Some x', du_dp_buf = Some p', u_buf = Some a\<rparr>) \<and>
   du_dx_buf (k_log_flat_bottom_bond enc ence cfe B coords box params' bond_idxs beta threads'
      \<lparr>du_dx_buf = None, du_dp_buf = p, u_buf = g\<rparr>) = None \<and>
   du_dp_buf (k_log_flat_bottom_bond enc ence cfe B coords box params' bond_idxs beta threads'
      \<lparr>du_dx_buf = x, du_dp_buf = None, u_buf = g\<rparr>) = None \<and>
   u_buf (k_log_flat_bottom_bond enc ence cfe B coords box params' bond_idxs beta threads'
      \<lparr>du_dx_buf = x, du_dp_buf = p, u_buf = None\<rparr>) = None \<and>
   du_dx_buf (k_log_flat_bottom_bond enc ence cfe B coords box params' bond_idxs beta threads'
      \<lparr>du_dx_buf = Some a, du_dp_buf = p, u_buf = g\<rparr>) =
     du_dx_buf (k_log_flat_bottom_bond enc ence cfe B coords box params' bond_idxs beta threads'
      \<lparr>du_dx_buf = Some a, du_dp_buf = Some p', u_buf = Some g'\<rparr>) \<and>
   du_dp_buf (k_log_flat_bottom_bond enc ence cfe B coords box params' bond_idxs beta threads'
      \<lparr>du_dx_buf = x, du_dp_buf = Some a, u_buf = g\<rparr>) =
     du_dp_buf (k_log_flat_bottom_bond enc ence cfe B coords box params' bond_idxs beta threads'
      \<lparr>du_dx_buf = Some x', du_dp_buf = Some a, u_buf = Some g'\<rparr>) \<and>
   u_buf (k_log_flat_bottom_bond enc ence cfe B coords box params' bond_idxs beta threads'
      \<lparr>du_dx_buf = x, du_dp_buf = p, u_buf = Some h\<rparr>) =
     u_buf (k_log_flat_bottom_bond enc ence cfe B coords box params' bond_idxs beta threads'
      \<lparr>du_dx_buf = Some x', du_dp_buf = Some p', u_buf = Some h\<rparr>)"
  unfolding torsion_kernel_du_dx torsion_kernel_du_dp torsion_kernel_u
    bond_kernel_du_dx bond_kernel_du_dp bond_kernel_u outputs.simps option.map
  by (intro conjI refl)

text \<open>
  On the example torsion with only the energy requested: the force buffer stays null,
  and the energy buffer ends as it does when all three buffers are passed.
\<close>

theorem null_pointer_skips_witness:
  "du_dx_buf (k_periodic_torsion FLOAT_TO_FIXED_BONDED 3 1 four_atoms_coords
      one_torsion_params one_torsion_idxs [0]
      \<lparr>du_dx_buf = None, du_dp_buf = None, u_buf = Some (\<lambda>i. 7)\<rparr>) = None \<and>
   u_buf (k_periodic_torsion FLOAT_TO_FIXED_BONDED 3 1 four_atoms_coords
      one_torsion_params one_torsion_idxs [0]
      \<lparr>du_dx_buf = None, du_dp_buf = None, u_buf = Some (\<lambda>i. 7)\<rparr>) =
   u_buf (k_periodic_torsion FLOAT_TO_FIXED_BONDED 3 1 four_atoms_coords
      one_torsion_params one_torsion_idxs [0]
      \<lparr>du_dx_buf = Some (\<lambda>i. 1), du_dp_buf = Some (\<lambda>i. 2), u_buf = Some (\<lambda>i. 7)\<rparr>)"
  using null_pointer_skips [where enc = FLOAT_TO_FIXED_BONDED and D = 3 and T = 1
      and coords = four_atoms_coords and params = one_torsion_params
      and torsion_idxs = one_torsion_idxs and threads = "[0]" and x = None and p = None
      and e = "Some (\<lambda>i. 7)" and a = "\<lambda>i. 7" and x' = "\<lambda>i. 1" and p' = "\<lambda>i. 2"]
  by simp

text \<open>
  C10. A thread of \<^verbatim>\<open>k_periodic_torsion\<close> that handles a torsion (\<open>t_idx < T\<close>) with a
  non-null energy buffer adds the whole energy \<open>kt * (1 + cos (period * angle - phase))\<close>
  of the torsion, encoded, to the slot of the first atom \<open>i_idx\<close>; every other slot, those
  of the atoms \<open>j_idx\<close>, \<open>k_idx\<close> and \<open>l_idx\<close> included when they differ from \<open>i_idx\<close>, keeps
  its contents.
\<close>

theorem torsion_energy_first_atom:
  assumes "t_idx < T"
  shows
   "(let i_idx = torsion_idxs (uint (t_idx * 4 + 0));
         j_idx = torsion_idxs (uint (t_idx * 4 + 1));
         k_idx = torsion_idxs (uint (t_idx * 4 + 2));
         l_idx = torsion_idxs (uint (t_idx * 4 + 3));
         (rij, rkj, rkl) = torsion_displacements D coords i_idx j_idx k_idx l_idx;
         angle = fst (torsion_angle_terms rij rkj rkl);
         kt = params (sint (t_idx * 3 + 0));
         phase = params (sint (t_idx * 3 + 1));
         period = params (sint (t_idx * 3 + 2))
     in u_buf (k_periodic_torsion_thread enc D T coords params torsion_idxs t_idx
          \<lparr>du_dx_buf = x, du_dp_buf = p, u_buf = Some u\<rparr>) =
        Some (\<lambda>s. if s = sint i_idx then u s + enc (kt * (1 + cos (period * angle - phase)))
                   else u s))"
proof -
  from assms have "\<not> T \<le> t_idx" by simp
  then show ?thesis
    by (simp add: k_periodic_torsion_thread_def Let_def case_prod_beta atomicAdd_def fun_eq_iff)
qed

text \<open>
  On the example torsion the angle is \<open>- pi / 2\<close> and the energy is 2: slot 0 receives
  \<open>2 * 2 ^ 36\<close>, the slots of the atoms 1, 2 and 3 keep the 7 they held.
\<close>

theorem torsion_energy_first_atom_witness:
  "(0 :: i32) < 1 \<and>
   u_buf (k_periodic_torsion_thread FLOAT_TO_FIXED_BONDED 3 1 four_atoms_coords
      one_torsion_params one_torsion_idxs 0
      \<lparr>du_dx_buf = None, du_dp_buf = None, u_buf = Some (\<lambda>s. 7)\<rparr>) =
   Some (\<lambda>s. if s = 0 then 7 + 0x2000000000 else 7)"
proof -
  have h: "(0 :: i32) < 1" by simp
  show ?thesis
    using torsion_energy_first_atom [OF h, where torsion_idxs = one_torsion_idxs and D = 3
        and coords = four_atoms_coords and params = one_torsion_params
        and enc = FLOAT_TO_FIXED_BONDED and x = None and p = None and u = "\<lambda>s. 7"]
    by (simp add: torsion_idx_example torsion_params_example torsion_displacements_four_atoms
        torsion_angle_four_atoms encode_2 cong: if_cong)
qed

section \<open>Displacements\<close>

lemma nearbyint_cases:
  "nearbyint x = of_int \<lfloor>x\<rfloor> \<and> x - of_int \<lfloor>x\<rfloor> \<le> 1 / 2 \<or>
   nearbyint x = of_int (\<lfloor>x\<rfloor> + 1) \<and> 1 / 2 \<le> x - of_int \<lfloor>x\<rfloor>"
  by (simp add: nearbyint_def Let_def)

lemma nearbyint_is_int: "\<exists>n::int. nearbyint x = of_int n"
  using nearbyint_cases [of x] by blast

lemma nearbyint_close: "\<bar>x - nearbyint x\<bar> \<le> 1 / 2"
proof -
  have "of_int \<lfloor>x\<rfloor> \<le> x" "x < of_int \<lfloor>x\<rfloor> + 1"
    by linarith+
  then show ?thesis
    using nearbyint_cases [of x] by auto
qed

lemma minimum_image_component:
  assumes L: "0 < L"
  shows "\<exists>n::int. delta - L * nearbyint (delta / L) = delta - of_int n * L \<and>
           \<bar>delta - L * nearbyint (delta / L)\<bar> \<le> L / 2"
proof -
  obtain n :: int where n: "nearbyint (delta / L) = of_int n"
    using nearbyint_is_int by blast
  have "delta - L * nearbyint (delta / L) = L * (delta / L - nearbyint (delta / L))"
    using L by (simp add: algebra_simps)
  then have "\<bar>delta - L * nearbyint (delta / L)\<bar> = L * \<bar>delta / L - nearbyint (delta / L)\<bar>"
    using L by (simp add: abs_mult)
  also have "\<dots> \<le> L * (1 / 2)"
    using L nearbyint_close [of "delta / L"] by (intro mult_left_mono) simp_all
  finally have "\<bar>delta - L * nearbyint (delta / L)\<bar> \<le> L / 2"
    by simp
  with n show ?thesis
    by (intro exI [of _ n]) (simp add: mult.commute)
qed

lemma bond_displacement_nth:
  assumes "d < 3"
  shows "bond_displacement coords box src_idx dst_idx ! d =
     (coords (sint (src_idx * 3 + of_nat d)) - coords (sint (dst_idx * 3 + of_nat d)))
       - box (sint (of_nat d * 3 + of_nat d :: i32))
         * nearbyint ((coords (sint (src_idx * 3 + of_nat d)) - coords (sint (dst_idx * 3 + of_nat d)))
             / box (sint (of_nat d * 3 + of_nat d :: i32)))"
proof -
  from assms have "d = 0 \<or> d = 1 \<or> d = 2" by auto
  then show ?thesis
    by (auto simp add: bond_displacement_def Let_def)
qed

lemma torsion_displacements_nth:
  assumes "d < 3"
  shows "fst (torsion_displacements D coords i_idx j_idx k_idx l_idx) ! d =
       coords (sint (j_idx * D + of_nat d)) - coords (sint (i_idx * D + of_nat d))"
    and "fst (snd (torsion_displacements D coords i_idx j_idx k_idx l_idx)) ! d =
       coords (sint (j_idx * D + of_nat d)) - coords (sint (k_idx * D + of_nat d))"
    and "snd (snd (torsion_displacements D coords i_idx j_idx k_idx l_idx)) ! d =
       coords (sint (l_idx * D + of_nat d)) - coords (sint (k_idx * D + of_nat d))"
proof -
  from assms have "d = 0 \<or> d = 1 \<or> d = 2" by auto
  then show "fst (torsion_displacements D coords i_idx j_idx k_idx l_idx) ! d =
       coords (sint (j_idx * D + of_nat d)) - coords (sint (i_idx * D + of_nat d))"
    and "fst (snd (torsion_displacements D coords i_idx j_idx k_idx l_idx)) ! d =
       coords (sint (j_idx * D + of_nat d)) - coords (sint (k_idx * D + of_nat d))"
    and "snd (snd (torsion_displacements D coords i_idx j_idx k_idx l_idx)) ! d =
       coords (sint (l_idx * D + of_nat d)) - coords (sint (k_idx * D + of_nat d))"
    by (auto simp add: torsion_displacements_def)
qed

text \<open>
  C3, as amended. \<^verbatim>\<open>k_log_flat_bottom_bond\<close> uses the minimum image of the separation:
  for a positive box diagonal, each component of its displacement differs from the raw
  coordinate difference by an integer multiple of the diagonal entry and is at most half
  of it in absolute value. \<^verbatim>\<open>k_periodic_torsion\<close> takes no box: its three displacements
  are raw coordinate differences.
\<close>

theorem displacement_conventions:
  assumes "d < 3" and "0 < box (sint (of_nat d * 3 + of_nat d :: i32))"
  shows
    "(\<exists>n::int.
        bond_displacement coords box src_idx dst_idx ! d =
          (coords (sint (src_idx * 3 + of_nat d)) - coords (sint (dst_idx * 3 + of_nat d)))
            - of_int n * box (sint (of_nat d * 3 + of_nat d :: i32)) \<and>
        \<bar>bond_displacement coords box src_idx dst_idx ! d\<bar>
          \<le> box (sint (of_nat d * 3 + of_nat d :: i32)) / 2) \<and>
     fst (torsion_displacements D coords i_idx j_idx k_idx l_idx) ! d =
       coords (sint (j_idx * D + of_nat d)) - coords (sint (i_idx * D + of_nat d)) \<and>
     fst (snd (torsion_displacements D coords i_idx j_idx k_idx l_idx)) ! d =
       coords (sint (j_idx * D + of_nat d)) - coords (sint (k_idx * D + of_nat d)) \<and>
     snd (snd (torsion_displacements D coords i_idx j_idx k_idx l_idx)) ! d =
       coords (sint (l_idx * D + of_nat d)) - coords (sint (k_idx * D + of_nat d))"
  using minimum_image_component [OF assms(2),
      of "coords (sint (src_idx * 3 + of_nat d)) - coords (sint (dst_idx * 3 + of_nat d))"]
  by (simp only: bond_displacement_nth [OF assms(1)] torsion_displacements_nth [OF assms(1)])

lemma bond_displacement_four_atoms:
  "bond_displacement four_atoms_coords cubic_box 1 0 = [- 1, 0, 0]"
  by (simp add: bond_displacement_def four_atoms_coords_def cubic_box_def mem_of_list_def
      Let_def nearbyint_example)

lemma cubic_box_0: "cubic_box 0 = 10"
  by (simp add: cubic_box_def mem_of_list_def)

text \<open>
  On the four atoms, for the pair of atoms 0 and 1 along the first axis: the bond rule
  gives \<open>- 1\<close>, within half the box side, and the torsion displacement is the raw
  difference of the coordinates.
\<close>

theorem displacement_conventions_witness:
  "(0 :: nat) < 3 \<and> 0 < cubic_box 0 \<and>
   bond_displacement four_atoms_coords cubic_box 1 0 ! 0 = - 1 \<and>
   \<bar>bond_displacement four_atoms_coords cubic_box 1 0 ! 0\<bar> \<le> cubic_box 0 / 2 \<and>
   fst (torsion_displacements 3 four_atoms_coords 0 1 2 3) ! 0 =
     four_atoms_coords 3 - four_atoms_coords 0"
proof -
  have h1: "(0 :: nat) < 3" by simp
  have h2: "0 < cubic_box (sint (of_nat 0 * 3 + of_nat 0 :: i32))"
    by (simp add: cubic_box_0)
  show ?thesis
    using displacement_conventions [where d = 0 and box = cubic_box
        and coords = four_atoms_coords and src_idx = 1 and dst_idx = 0 and D = 3
        and i_idx = 0 and j_idx = 1 and k_idx = 2 and l_idx = 3, OF h1 h2]
    by (simp add: bond_displacement_four_atoms cubic_box_0)
qed

text \<open>
  C3 as stated fails for the torsion kernel: on the four atoms in the box of side 10 it
  uses the separation 9 between atoms 0 and 1, which exceeds half the box side, where the
  minimum image is \<open>- 1\<close>.
\<close>

theorem torsion_raw_difference_counterexample:
  "fst (torsion_displacements 3 four_atoms_coords 0 1 2 3) ! 0 = 9 \<and>
   bond_displacement four_atoms_coords cubic_box 1 0 ! 0 = - 1 \<and>
   \<not> \<bar>fst (torsion_displacements 3 four_atoms_coords 0 1 2 3) ! 0\<bar> \<le> cubic_box 0 / 2"
  by (simp add: torsion_displacements_four_atoms bond_displacement_four_atoms cubic_box_0)

section \<open>Width and decoding of the energy channel\<close>

text \<open>
  C4, as amended. The energy buffer of \<^verbatim>\<open>k_log_flat_bottom_bond\<close> has elements of twice
  the width of the force buffer's. The energy buffer of \<^verbatim>\<open>k_periodic_torsion\<close> has
  elements of the same width as the force buffer's, 64 bits. \<^verbatim>\<open>FIXED_ENERGY_TO_FLOAT\<close>
  decodes the low 64 bits of the wide value as \<^verbatim>\<open>FIXED_TO_FLOAT\<close> does: both divide the
  signed value by the same exponent \<open>2 ^ 36\<close>.
\<close>

theorem energy_channel_widths:
  "size (the (u_buf (k_log_flat_bottom_bond enc ence cfe B coords box params bond_idxs beta
           threads out)) s) =
     2 * size (the (du_dx_buf (k_log_flat_bottom_bond enc ence cfe B coords box params bond_idxs
           beta threads out)) s') \<and>
   size (the (u_buf (k_periodic_torsion enc D T coords params' torsion_idxs threads' out')) s) =
     size (the (du_dx_buf (k_periodic_torsion enc D T coords params' torsion_idxs threads' out'))
       s') \<and>
   size (the (du_dx_buf (k_periodic_torsion enc D T coords params' torsion_idxs threads' out'))
       s') = 64 \<and>
   FIXED_ENERGY_TO_FLOAT v = FIXED_TO_FLOAT (ucast v) \<and>
   FIXED_TO_FLOAT w = real_of_int (sint w) / 2 ^ 36 \<and>
   FIXED_ENERGY_TO_FLOAT v = real_of_int (sint (ucast v :: 64 word)) / 2 ^ 36"
  by (simp add: word_size FIXED_ENERGY_TO_FLOAT_def FIXED_TO_FLOAT_def FIXED_EXPONENT_def)

text \<open>
  The energy slots of the bond kernel have 128 bits, and both decoders map \<open>2 * 2 ^ 36\<close>
  to 2.
\<close>

theorem energy_channel_widths_witness:
  "size (the (u_buf (k_log_flat_bottom_bond FLOAT_TO_FIXED_BONDED FLOAT_TO_FIXED_ENERGY
       compute_flat_bottom_energy 1 two_atoms_coords cubic_box one_bond_params one_bond_idxs 1 [0]
       \<lparr>du_dx_buf = Some (\<lambda>i. 0), du_dp_buf = Some (\<lambda>i. 0), u_buf = Some (\<lambda>i. 0)\<rparr>)) 0) = 128 \<and>
   FIXED_ENERGY_TO_FLOAT 0x2000000000 = 2 \<and>
   FIXED_TO_FLOAT 0x2000000000 = 2"
  using energy_channel_widths [where enc = FLOAT_TO_FIXED_BONDED and ence = FLOAT_TO_FIXED_ENERGY
      and cfe = compute_flat_bottom_energy and B = 1 and coords = two_atoms_coords
      and box = cubic_box and params = one_bond_params and bond_idxs = one_bond_idxs
      and beta = 1 and threads = "[0]" and s = 0 and s' = 0 and v = "0x2000000000"
      and w = "0x2000000000"
      and out = "\<lparr>du_dx_buf = Some (\<lambda>i. 0), du_dp_buf = Some (\<lambda>i. 0), u_buf = Some (\<lambda>i. 0)\<rparr>"]
  by (simp add: word_size)

text \<open>
  C4 as stated fails for the torsion kernel: its energy slots are not at least twice as
  wide as its force slots.
\<close>

theorem torsion_energy_width_counterexample:
  "\<not> 2 * size (the (du_dx_buf (k_periodic_torsion FLOAT_TO_FIXED_BONDED 3 1 four_atoms_coords
          one_torsion_params one_torsion_idxs [0]
          \<lparr>du_dx_buf = Some (\<lambda>i. 0), du_dp_buf = Some (\<lambda>i. 0), u_buf = Some (\<lambda>i. 0)\<rparr>)) 0)
      \<le> size (the (u_buf (k_periodic_torsion FLOAT_TO_FIXED_BONDED 3 1 four_atoms_coords
          one_torsion_params one_torsion_idxs [0]
          \<lparr>du_dx_buf = Some (\<lambda>i. 0), du_dp_buf = Some (\<lambda>i. 0), u_buf = Some (\<lambda>i. 0)\<rparr>)) 0)"
  by (simp add: word_size)

section \<open>Construction of a device buffer\<close>

text \<open>
  A length below 1 is rejected before the allocator is called, whatever the allocator
  is. A length of at least 1 requests \<open>len * sizeof T\<close> bytes, a product of \<^verbatim>\<open>std::size_t\<close>,
  which is the number of bytes of \<open>len\<close> elements when that number is below \<open>2 ^ 64\<close>.
\<close>

lemma DeviceBuffer_ctor_rejects:
  "len < 1 \<Longrightarrow>
   DeviceBuffer_ctor T malloc len dev =
     Inl (Runtime_error ''device buffer length must at least be 1'')"
  by (simp add: DeviceBuffer_ctor_def allocate_def)

lemma DeviceBuffer_ctor_allocates:
  assumes "1 \<le> len"
  shows "DeviceBuffer_ctor T recording_malloc len dev =
     Inr (\<lparr>size_m = len * sizeof T, data_m = length dev\<rparr>, dev @ [len * sizeof T])"
    and "unat len * unat (sizeof T) < 2 ^ 64 \<Longrightarrow>
     unat (len * sizeof T) = unat len * unat (sizeof T)"
proof -
  from assms have "\<not> len < 1" by (auto simp add: word_less_1)
  then show "DeviceBuffer_ctor T recording_malloc len dev =
     Inr (\<lparr>size_m = len * sizeof T, data_m = length dev\<rparr>, dev @ [len * sizeof T])"
    by (simp add: DeviceBuffer_ctor_def allocate_def recording_malloc_def)
  show "unat len * unat (sizeof T) < 2 ^ 64 \<Longrightarrow>
     unat (len * sizeof T) = unat len * unat (sizeof T)"
    by (simp add: unat_word_ariths)
qed

text \<open>
  C9 at the length \<open>2 ^ 61\<close> of a buffer of \<^verbatim>\<open>double\<close>: the \<open>2 ^ 64\<close> bytes of that many
  elements wrap to 0, the allocator is asked for 0 bytes, and the constructor returns a
  buffer of size 0.
\<close>

theorem DeviceBuffer_ctor_size_wraps:
  "DeviceBuffer_ctor T_double recording_malloc (2 ^ 61) [] =
     Inr (\<lparr>size_m = 0, data_m = 0\<rparr>, [0]) \<and>
   unat (2 ^ 61 :: size_t) * unat (sizeof T_double) = 2 ^ 64"
  by (simp add: DeviceBuffer_ctor_def allocate_def recording_malloc_def)

section \<open>Independence of the dispatch order\<close>



















section \<open>The coefficients and the determinism of the integrator\<close>

lemma exp_minus_double:
  "exp (- (2 * friction * dt)) = (exp (- (friction * dt)))\<^sup>2" for friction dt :: real
proof -
  have "exp (- (2 * friction * dt)) = exp (2 * (- (friction * dt)))"
    by (simp add: algebra_simps)
  also have "\<dots> = (exp (- (friction * dt)))\<^sup>2"
    by (rule exp_double)
  finally show ?thesis .
qed

lemma step_fwd_coefficients:
  "ca_m (fst (step_fwd env this bps d_x_t d_v_t d_box_t d_idxs)) = ca_m this \<and>
   d_cbs_m (fst (step_fwd env this bps d_x_t d_v_t d_box_t d_idxs)) = d_cbs_m this \<and>
   d_ccs_m (fst (step_fwd env this bps d_x_t d_v_t d_box_t d_idxs)) = d_ccs_m this"
  by (simp add: step_fwd_def Let_def case_prod_beta)

text \<open>
  C7. The integrator that the constructor returns holds \<open>ca = exp (- friction * dt)\<close>
  and, for every atom \<open>i\<close> below \<open>N\<close>, \<open>cb i = dt / m i\<close> and
  \<open>cc i = sqrt (1 - ca\<^sup>2) * sqrt (kT / m i)\<close> with \<open>kT = BOLTZ * temperature\<close> (in exact real
  arithmetic, where the \<^verbatim>\<open>sqrt(1 - exp(-2 * friction * dt))\<close> of the source is
  \<open>sqrt (1 - ca\<^sup>2)\<close>). \<^verbatim>\<open>step_fwd\<close> leaves the three coefficients as they are.
\<close>

theorem LangevinIntegrator_coefficients:
  assumes ctor: "LangevinIntegrator_ctor env uninit_noise uninit_du_dx N masses temperature dt
             friction seed = Inr this"
    and i: "i < nat (sint N)"
  shows "ca_m this = exp (- friction * dt) \<and>
         d_cbs_m this ! i = dt / masses (int i) \<and>
         d_ccs_m this ! i =
           sqrt (1 - (ca_m this)\<^sup>2) * sqrt (BOLTZ env * temperature / masses (int i)) \<and>
         length (d_cbs_m this) = nat (sint N) \<and>
         length (d_ccs_m this) = nat (sint N) \<and>
         ca_m (fst (step_fwd env this bps d_x_t d_v_t d_box_t d_idxs)) = ca_m this \<and>
         d_cbs_m (fst (step_fwd env this bps d_x_t d_v_t d_box_t d_idxs)) = d_cbs_m this \<and>
         d_ccs_m (fst (step_fwd env this bps d_x_t d_v_t d_box_t d_idxs)) = d_ccs_m this"
proof -
  from ctor have N: "\<not> sint N < 0"
    by (auto simp add: LangevinIntegrator_ctor_def split: if_splits)
  from ctor N have built:
    "this = \<lparr>N_m = N, temperature_m = temperature, dt_m = dt, friction_m = friction,
        ca_m = exp (- friction * dt),
        d_cbs_m = map (\<lambda>i. dt / masses (int i)) [0..<nat (sint N)],
        d_ccs_m = map (\<lambda>i. sqrt (1 - exp (- 2 * friction * dt))
                       * sqrt (BOLTZ env * temperature / masses (int i))) [0..<nat (sint N)],
        cr_rng_m = curandSetPseudoRandomGeneratorSeed env (curandCreateGenerator env) seed,
        d_noise_m = map (\<lambda>i. uninit_noise (int i)) [0..<round_up_even (nat (sint (N * 3)))],
        d_du_dx_m = fresh_alloc (nat (sint (N * 3))) uninit_du_dx\<rparr>"
    by (simp add: LangevinIntegrator_ctor_def Let_def)
  have "ca_m this = exp (- friction * dt)"
    by (simp add: built)
  moreover have "d_cbs_m this ! i = dt / masses (int i)"
    using i by (simp add: built)
  moreover have "d_ccs_m this ! i =
      sqrt (1 - (ca_m this)\<^sup>2) * sqrt (BOLTZ env * temperature / masses (int i))"
    using i by (simp add: built exp_minus_double)
  moreover have "length (d_cbs_m this) = nat (sint N)" "length (d_ccs_m this) = nat (sint N)"
    by (simp_all add: built)
  ultimately show ?thesis
    using step_fwd_coefficients [of env this bps d_x_t d_v_t d_box_t d_idxs] by simp
qed

lemma example_integrator_ctor:
  "LangevinIntegrator_ctor example_callees (\<lambda>i. g) (\<lambda>i. h) 4 (\<lambda>i. 12) 300 (1 / 1000) 1 7 =
     Inr (example_integrator g h)"
  by (simp add: example_integrator_def LangevinIntegrator_ctor_def Let_def)

text \<open>
  The coefficients of the example integrator for the atom 2: \<open>dt = 1 / 1000\<close>,
  \<open>friction = 1\<close>, mass 12 and temperature 300.
\<close>

theorem LangevinIntegrator_coefficients_witness:
  "(2 :: nat) < nat (sint (4 :: i32)) \<and>
   ca_m (example_integrator 0 0) = exp (- (1 / 1000)) \<and>
   d_cbs_m (example_integrator 0 0) ! 2 = 1 / 12000 \<and>
   d_ccs_m (example_integrator 0 0) ! 2 =
     sqrt (1 - (exp (- (1 / 1000)))\<^sup>2) * sqrt (0.0083144626 * 300 / 12)"
proof -
  have h: "(2 :: nat) < nat (sint (4 :: i32))" by simp
  show ?thesis
    using LangevinIntegrator_coefficients [OF example_integrator_ctor h, of 0 0]
    by (simp add: example_callees_def)
qed





end
